theory Spec2Isabelle
  imports Main "HOL-Library.Word"
begin

section \<open>Remote profiling: frame codec and broadcast server\<close>

text \<open>
  A shallow embedding of \<^verbatim>\<open>profiling/remote/__init__.py\<close>. The module has two parts:
  the frame codec (\<^verbatim>\<open>pack_stats\<close>, \<^verbatim>\<open>recv\<close>, \<^verbatim>\<open>recv_stats\<close>) and the class
  \<^verbatim>\<open>BaseProfilingServer\<close> (\<^verbatim>\<open>profiling\<close>, \<^verbatim>\<open>connected\<close>, \<^verbatim>\<open>disconnected\<close>).
  Everything the module calls but does not define (pickle, struct, the socket, the profiler,
  the abstract methods a backend implements) is a parameter of the model.
\<close>

subsection \<open>Bytes, errors\<close>

type_synonym byte = "8 word"
type_synonym bytes = "byte list"

text \<open>
  Modelled from the spec: the module \<^verbatim>\<open>profiling/remote/errnos.py\<close>, which supplies the
  constants \<^verbatim>\<open>EBADF\<close>, \<^verbatim>\<open>EPIPE\<close> and \<^verbatim>\<open>ECONNRESET\<close>, is not part of the sources. The spec
  treats the platform table as a classification of a raw error into bad-descriptor,
  broken-pipe, connection-reset or other; the three constants are three distinct values and
  every other value of \<^verbatim>\<open>err.errno\<close> is \<open>Errno_other\<close> with its number.
\<close>

datatype errno = EBADF | EPIPE | ECONNRESET | Errno_other int

text \<open>
  The exceptions the module raises or handles. \<^verbatim>\<open>socket.error\<close> carries its errno (the only
  attribute the handlers read); \<^verbatim>\<open>struct.error\<close> is what \<^verbatim>\<open>struct.pack\<close> and
  \<^verbatim>\<open>struct.unpack\<close> raise; \<^verbatim>\<open>IndexError\<close> is what \<^verbatim>\<open>'{0[1]}'.format\<close> raises on a
  tuple that is too short; \<open>Other_exception\<close> is any other exception of a collaborator
  (a pickling error, \<^verbatim>\<open>NotImplementedError\<close> of an abstract method, ...).
\<close>

datatype exn = Socket_error errno | Struct_error | Index_error | Other_exception string

subsection \<open>The struct module, format \<^verbatim>\<open>'!I'\<close>\<close>

text \<open>
  \<^verbatim>\<open>SIZE_STRUCT_FORMAT = '!I'\<close>: network byte order, unsigned 32 bit. \<^verbatim>\<open>struct.pack\<close>
  raises \<^verbatim>\<open>struct.error\<close> when the number does not fit; \<^verbatim>\<open>struct.unpack\<close> raises it
  when the buffer is not 4 bytes long.
\<close>

definition struct_calcsize :: nat where
  "struct_calcsize = 4"

definition struct_pack :: "nat \<Rightarrow> exn + bytes" where
  "struct_pack n =
     (if n < 2 ^ 32
      then Inr [of_nat (n div 2 ^ 24), of_nat (n div 2 ^ 16), of_nat (n div 2 ^ 8), of_nat n]
      else Inl Struct_error)"

definition struct_unpack :: "bytes \<Rightarrow> exn + nat" where
  "struct_unpack data =
     (case data of
        [b3, b2, b1, b0] \<Rightarrow> Inr (unat b3 * 2 ^ 24 + unat b2 * 2 ^ 16 + unat b1 * 2 ^ 8 + unat b0)
      | _ \<Rightarrow> Inl Struct_error)"

subsection \<open>The pickle module and the profiler\<close>

text \<open>
  \<^verbatim>\<open>pickle.dump(stats, dump, protocol)\<close> followed by \<^verbatim>\<open>dump.getvalue()\<close> is the function
  \<open>pickle_dump\<close> from a snapshot and a protocol to the serialized bytes; \<^verbatim>\<open>pickle.loads\<close> is
  \<open>pickle_loads\<close>. Both may raise.
\<close>

record ('s, 'p) pickle =
  pickle_dump :: "'s \<Rightarrow> 'p \<Rightarrow> exn + bytes"
  pickle_loads :: "bytes \<Rightarrow> exn + 's"

text \<open>
  The profiler is an object with the methods \<^verbatim>\<open>start\<close>, \<^verbatim>\<open>stop\<close>, \<^verbatim>\<open>clear\<close> and
  \<^verbatim>\<open>result\<close>; its class is not part of this module. Each method takes the profiler's state
  \<open>'pr\<close> and returns the new state with either a value or an exception.
  \<open>new_profiler\<close> is the constructor call \<^verbatim>\<open>Profiler()\<close>.
\<close>

record ('pr, 's) profiler_ops =
  new_profiler :: "'pr"
  prof_start :: "'pr \<Rightarrow> (exn + unit) \<times> 'pr"
  prof_stop :: "'pr \<Rightarrow> (exn + unit) \<times> 'pr"
  prof_clear :: "'pr \<Rightarrow> (exn + unit) \<times> 'pr"
  prof_result :: "'pr \<Rightarrow> (exn + 's) \<times> 'pr"

subsection \<open>Frame codec\<close>

text \<open>
  \<^verbatim>\<open>pack_stats(profiler, pickle_protocol)\<close>: the result of the profiler, pickled, with the
  size of the pickle packed in front. \<^verbatim>\<open>dump.tell()\<close> after the dump is the number of bytes
  written.
\<close>

definition pack_stats ::
  "('s, 'p) pickle \<Rightarrow> ('pr, 's) profiler_ops \<Rightarrow> 'pr \<Rightarrow> 'p \<Rightarrow> (exn + bytes) \<times> 'pr" where
  "pack_stats pk po profiler pickle_protocol =
     (case prof_result po profiler of
        (Inl e, profiler') \<Rightarrow> (Inl e, profiler')
      | (Inr stats, profiler') \<Rightarrow>
          (case pickle_dump pk stats pickle_protocol of
             Inl e \<Rightarrow> (Inl e, profiler')
           | Inr dump \<Rightarrow>
               (let sz = length dump in
                case struct_pack sz of
                  Inl e \<Rightarrow> (Inl e, profiler')
                | Inr header \<Rightarrow> (Inr (header @ dump), profiler'))))"

text \<open>
  A connected stream socket, seen from the reader: the bytes the peer has sent or will send
  that are not yet read, and whether the peer closes after them. With \<^verbatim>\<open>MSG_WAITALL\<close> the
  call \<^verbatim>\<open>sock.recv(size, socket.MSG_WAITALL)\<close> returns \<open>size\<close> bytes once they are there; when
  the peer closes first it returns the bytes that are left (fewer, possibly none); when the
  peer neither sends enough nor closes the call blocks for ever, which is the value \<open>None\<close>.
\<close>

record sock =
  incoming :: bytes
  peer_closes :: bool

definition sock_recv :: "sock \<Rightarrow> nat \<Rightarrow> (bytes \<times> sock) option" where
  "sock_recv s sz =
     (if sz \<le> length (incoming s)
      then Some (take sz (incoming s), s\<lparr>incoming := drop sz (incoming s)\<rparr>)
      else if peer_closes s then Some (incoming s, s\<lparr>incoming := []\<rparr>)
      else None)"

text \<open>
  \<^verbatim>\<open>recv(sock, size)\<close>: \<open>None\<close> when the call never returns, otherwise the socket after the
  call with the data or the exception \<^verbatim>\<open>socket.error(ECONNRESET, 'Connection closed')\<close>.
\<close>

definition recv :: "sock \<Rightarrow> nat \<Rightarrow> ((exn + bytes) \<times> sock) option" where
  "recv s sz =
     (case sock_recv s sz of
        None \<Rightarrow> None
      | Some (data, s') \<Rightarrow>
          if length data < sz then Some (Inl (Socket_error ECONNRESET), s')
          else Some (Inr data, s'))"

text \<open>\<^verbatim>\<open>recv_stats(sock)\<close>: the header, the size in it, that many bytes, unpickled.\<close>

definition recv_stats :: "('s, 'p) pickle \<Rightarrow> sock \<Rightarrow> ((exn + 's) \<times> sock) option" where
  "recv_stats pk s =
     (case recv s struct_calcsize of
        None \<Rightarrow> None
      | Some (Inl e, s1) \<Rightarrow> Some (Inl e, s1)
      | Some (Inr data, s1) \<Rightarrow>
          (case struct_unpack data of
             Inl e \<Rightarrow> Some (Inl e, s1)
           | Inr sz \<Rightarrow>
               (case recv s1 sz of
                  None \<Rightarrow> None
                | Some (Inl e, s2) \<Rightarrow> Some (Inl e, s2)
                | Some (Inr data', s2) \<Rightarrow> Some (pickle_loads pk data', s2))))"

subsection \<open>Log messages\<close>

text \<open>Python's \<^verbatim>\<open>str\<close> of a non-negative integer, as \<^verbatim>\<open>format\<close> renders a count.\<close>

fun str_nat :: "nat \<Rightarrow> string" where
  "str_nat n =
     (if n < 10 then [char_of (48 + n)]
      else str_nat (n div 10) @ [char_of (48 + n mod 10)])"

declare str_nat.simps [simp del]

text \<open>
  \<^verbatim>\<open>fmt_connected(addr, num_clients)\<close> and \<^verbatim>\<open>fmt_disconnected\<close>. The callers pass a tuple
  or \<^verbatim>\<open>None\<close>; a tuple is the list of its items as \<^verbatim>\<open>format\<close> renders them. \<^verbatim>\<open>if addr\<close>
  holds for a non-empty tuple, and \<^verbatim>\<open>{0[1]}\<close> raises \<^verbatim>\<open>IndexError\<close> on a tuple of one item.
\<close>

definition fmt_connected :: "string list option \<Rightarrow> nat \<Rightarrow> exn + string" where
  "fmt_connected addr num_clients =
     (case addr of
        Some (host # port # _) \<Rightarrow>
          Inr (''Connected from '' @ host @ '':'' @ port @
               '' (total: '' @ str_nat num_clients @ '')'')
      | Some [_] \<Rightarrow> Inl Index_error
      | _ \<Rightarrow> Inr (''A client connected (total: '' @ str_nat num_clients @ '')''))"

definition fmt_disconnected :: "string list option \<Rightarrow> nat \<Rightarrow> exn + string" where
  "fmt_disconnected addr num_clients =
     (case addr of
        Some (host # port # _) \<Rightarrow>
          Inr (''Disconnected from '' @ host @ '':'' @ port @
               '' (total: '' @ str_nat num_clients @ '')'')
      | Some [_] \<Rightarrow> Inl Index_error
      | _ \<Rightarrow> Inr (''A client disconnected (total: '' @ str_nat num_clients @ '')''))"

definition fmt_profiler_started :: "nat \<Rightarrow> string" where
  "fmt_profiler_started interval = ''Profiling every '' @ str_nat interval @ '' seconds...''"

definition fmt_profiler_stopped :: string where
  "fmt_profiler_stopped = ''Profiler stopped''"

subsection \<open>The backend of a server\<close>

text \<open>
  \<^verbatim>\<open>BaseProfilingServer\<close> leaves \<^verbatim>\<open>_send\<close>, \<^verbatim>\<open>_close\<close>, \<^verbatim>\<open>_addr\<close>, \<^verbatim>\<open>_start_profiling\<close> and
  \<^verbatim>\<open>_start_watching\<close> to a subclass. A backend has a state \<open>'a\<close> of its own (its sockets);
  each method returns the new state with a value or an exception. \<^verbatim>\<open>_addr\<close> returns any
  object: a tuple, or something else.
\<close>

datatype pyaddr = Addr_tuple "string list" | Addr_other

record ('c, 'a) adapter_ops =
  ad_send :: "'c \<Rightarrow> bytes \<Rightarrow> 'a \<Rightarrow> (exn + unit) \<times> 'a"
  ad_close :: "'c \<Rightarrow> 'a \<Rightarrow> (exn + unit) \<times> 'a"
  ad_addr :: "'c \<Rightarrow> 'a \<Rightarrow> (exn + pyaddr) \<times> 'a"
  ad_start_profiling :: "'a \<Rightarrow> (exn + unit) \<times> 'a"
  ad_start_watching :: "'c \<Rightarrow> 'a \<Rightarrow> (exn + unit) \<times> 'a"

text \<open>
  What the server is run with: the pickle module, the profiler's methods, the backend's
  methods, and the order in which Python iterates over a set (\<open>set_iter\<close>, which the language
  leaves to the implementation).
\<close>

record ('c, 'pr, 's, 'p, 'a) env =
  pickle_of :: "('s, 'p) pickle"
  profiler_of :: "('pr, 's) profiler_ops"
  adapter_of :: "('c, 'a) adapter_ops"
  set_iter :: "'c set \<Rightarrow> 'c list"

subsection \<open>The server\<close>

text \<open>
  The calls a server makes on \<^verbatim>\<open>self.log\<close> and on its backend, in order. A \<open>Send_ev\<close> keeps
  what \<^verbatim>\<open>_send\<close> was given and how it ended.
\<close>

datatype 'c event =
    Log_ev string
  | Send_ev 'c bytes "exn + unit"
  | Close_ev 'c
  | Start_profiling_ev
  | Start_watching_ev 'c

text \<open>
  The attributes of a \<^verbatim>\<open>BaseProfilingServer\<close> (\<open>latest_data\<close> is \<^verbatim>\<open>_latest_data\<close>, where
  \<open>None\<close> is Python's \<^verbatim>\<open>None\<close>), the state of its backend, and the calls made so far. The
  attribute \<^verbatim>\<open>log\<close> is a callable; calling it is an event of the trace. A Python set is
  finite, and \<^verbatim>\<open>len\<close> of it is \<open>card\<close>. The interval is read by one log message only; it
  is a whole number of seconds here.
\<close>

record ('c, 'pr, 'p, 'a) server =
  profiler :: 'pr
  interval :: nat
  pickle_protocol :: 'p
  clients :: "'c set"
  latest_data :: "bytes option"
  backend :: 'a
  trace :: "'c event list"

text \<open>
  \<^verbatim>\<open>__init__\<close>; the class attribute \<^verbatim>\<open>_latest_data = None\<close> is what a new instance reads.
\<close>

definition init_server ::
  "('c, 'pr, 's, 'p, 'a) env \<Rightarrow> 'pr option \<Rightarrow> nat \<Rightarrow> 'p \<Rightarrow> 'a \<Rightarrow> ('c, 'pr, 'p, 'a) server" where
  "init_server env profiler_arg interval_arg protocol_arg backend_arg =
     \<lparr>profiler = (case profiler_arg of None \<Rightarrow> new_profiler (profiler_of env) | Some p \<Rightarrow> p),
      interval = interval_arg,
      pickle_protocol = protocol_arg,
      clients = {},
      latest_data = None,
      backend = backend_arg,
      trace = []\<rparr>"

text \<open>Sequencing: the second statement runs unless the first raised.\<close>

definition and_then ::
  "('w \<Rightarrow> (exn + 'x) \<times> 'w) \<Rightarrow> ('x \<Rightarrow> 'w \<Rightarrow> (exn + 'y) \<times> 'w) \<Rightarrow> 'w \<Rightarrow> (exn + 'y) \<times> 'w" where
  "and_then m f w = (case m w of (Inl e, w') \<Rightarrow> (Inl e, w') | (Inr x, w') \<Rightarrow> f x w')"

text \<open>
  The calls on the collaborators: \<open>srv_log\<close> is \<^verbatim>\<open>self.log\<close>; \<open>srv_send\<close>, \<open>srv_close\<close>,
  \<open>srv_addr\<close>, \<open>srv_start_profiling\<close> and \<open>srv_start_watching\<close> are the backend's \<^verbatim>\<open>_send\<close>,
  \<^verbatim>\<open>_close\<close>, \<^verbatim>\<open>_addr\<close>, \<^verbatim>\<open>_start_profiling\<close> and \<^verbatim>\<open>_start_watching\<close>; \<open>srv_prof_start\<close>,
  \<open>srv_prof_stop\<close> and \<open>srv_prof_clear\<close> are the methods of \<^verbatim>\<open>self.profiler\<close>, and
  \<open>srv_pack_stats\<close> is \<^verbatim>\<open>pack_stats(self.profiler, self.pickle_protocol)\<close>. The log calls
  and the backend calls other than \<^verbatim>\<open>_addr\<close> are recorded in the trace.
\<close>

definition srv_log ::
  "string \<Rightarrow> ('c, 'pr, 'p, 'a) server \<Rightarrow> (exn + unit) \<times> ('c, 'pr, 'p, 'a) server" where
  "srv_log msg w = (Inr (), w\<lparr>trace := trace w @ [Log_ev msg]\<rparr>)"

definition srv_send ::
  "('c, 'pr, 's, 'p, 'a) env \<Rightarrow> 'c \<Rightarrow> bytes \<Rightarrow> ('c, 'pr, 'p, 'a) server
   \<Rightarrow> (exn + unit) \<times> ('c, 'pr, 'p, 'a) server" where
  "srv_send env client data w =
     (case ad_send (adapter_of env) client data (backend w) of
        (r, a) \<Rightarrow> (r, w\<lparr>backend := a, trace := trace w @ [Send_ev client data r]\<rparr>))"

definition srv_close ::
  "('c, 'pr, 's, 'p, 'a) env \<Rightarrow> 'c \<Rightarrow> ('c, 'pr, 'p, 'a) server
   \<Rightarrow> (exn + unit) \<times> ('c, 'pr, 'p, 'a) server" where
  "srv_close env client w =
     (case ad_close (adapter_of env) client (backend w) of
        (r, a) \<Rightarrow> (r, w\<lparr>backend := a, trace := trace w @ [Close_ev client]\<rparr>))"

definition srv_addr ::
  "('c, 'pr, 's, 'p, 'a) env \<Rightarrow> 'c \<Rightarrow> ('c, 'pr, 'p, 'a) server
   \<Rightarrow> (exn + pyaddr) \<times> ('c, 'pr, 'p, 'a) server" where
  "srv_addr env client w =
     (case ad_addr (adapter_of env) client (backend w) of
        (r, a) \<Rightarrow> (r, w\<lparr>backend := a\<rparr>))"

definition srv_start_profiling ::
  "('c, 'pr, 's, 'p, 'a) env \<Rightarrow> ('c, 'pr, 'p, 'a) server
   \<Rightarrow> (exn + unit) \<times> ('c, 'pr, 'p, 'a) server" where
  "srv_start_profiling env w =
     (case ad_start_profiling (adapter_of env) (backend w) of
        (r, a) \<Rightarrow> (r, w\<lparr>backend := a, trace := trace w @ [Start_profiling_ev]\<rparr>))"

definition srv_start_watching ::
  "('c, 'pr, 's, 'p, 'a) env \<Rightarrow> 'c \<Rightarrow> ('c, 'pr, 'p, 'a) server
   \<Rightarrow> (exn + unit) \<times> ('c, 'pr, 'p, 'a) server" where
  "srv_start_watching env client w =
     (case ad_start_watching (adapter_of env) client (backend w) of
        (r, a) \<Rightarrow> (r, w\<lparr>backend := a, trace := trace w @ [Start_watching_ev client]\<rparr>))"

definition srv_prof_start ::
  "('c, 'pr, 's, 'p, 'a) env \<Rightarrow> ('c, 'pr, 'p, 'a) server
   \<Rightarrow> (exn + unit) \<times> ('c, 'pr, 'p, 'a) server" where
  "srv_prof_start env w =
     (case prof_start (profiler_of env) (profiler w) of (r, p) \<Rightarrow> (r, w\<lparr>profiler := p\<rparr>))"

definition srv_prof_stop ::
  "('c, 'pr, 's, 'p, 'a) env \<Rightarrow> ('c, 'pr, 'p, 'a) server
   \<Rightarrow> (exn + unit) \<times> ('c, 'pr, 'p, 'a) server" where
  "srv_prof_stop env w =
     (case prof_stop (profiler_of env) (profiler w) of (r, p) \<Rightarrow> (r, w\<lparr>profiler := p\<rparr>))"

definition srv_prof_clear ::
  "('c, 'pr, 's, 'p, 'a) env \<Rightarrow> ('c, 'pr, 'p, 'a) server
   \<Rightarrow> (exn + unit) \<times> ('c, 'pr, 'p, 'a) server" where
  "srv_prof_clear env w =
     (case prof_clear (profiler_of env) (profiler w) of (r, p) \<Rightarrow> (r, w\<lparr>profiler := p\<rparr>))"

definition srv_pack_stats ::
  "('c, 'pr, 's, 'p, 'a) env \<Rightarrow> ('c, 'pr, 'p, 'a) server
   \<Rightarrow> (exn + bytes) \<times> ('c, 'pr, 'p, 'a) server" where
  "srv_pack_stats env w =
     (case pack_stats (pickle_of env) (profiler_of env) (profiler w) (pickle_protocol w) of
        (r, p) \<Rightarrow> (r, w\<lparr>profiler := p\<rparr>))"

text \<open>The four \<^verbatim>\<open>_log_...\<close> methods. \<^verbatim>\<open>len(self.clients)\<close> is the cardinality of the set.\<close>

definition tuple_or_none :: "pyaddr \<Rightarrow> string list option" where
  "tuple_or_none addr = (case addr of Addr_tuple items \<Rightarrow> Some items | Addr_other \<Rightarrow> None)"

definition log_connected ::
  "('c, 'pr, 's, 'p, 'a) env \<Rightarrow> 'c \<Rightarrow> ('c, 'pr, 'p, 'a) server
   \<Rightarrow> (exn + unit) \<times> ('c, 'pr, 'p, 'a) server" where
  "log_connected env client =
     and_then (srv_addr env client) (\<lambda>addr w.
       case fmt_connected (tuple_or_none addr) (card (clients w)) of
         Inl e \<Rightarrow> (Inl e, w)
       | Inr msg \<Rightarrow> srv_log msg w)"

definition log_disconnected ::
  "('c, 'pr, 's, 'p, 'a) env \<Rightarrow> 'c \<Rightarrow> ('c, 'pr, 'p, 'a) server
   \<Rightarrow> (exn + unit) \<times> ('c, 'pr, 'p, 'a) server" where
  "log_disconnected env client =
     and_then (srv_addr env client) (\<lambda>addr w.
       case fmt_disconnected (tuple_or_none addr) (card (clients w)) of
         Inl e \<Rightarrow> (Inl e, w)
       | Inr msg \<Rightarrow> srv_log msg w)"

definition log_profiler_started ::
  "('c, 'pr, 'p, 'a) server \<Rightarrow> (exn + unit) \<times> ('c, 'pr, 'p, 'a) server" where
  "log_profiler_started w = srv_log (fmt_profiler_started (interval w)) w"

definition log_profiler_stopped ::
  "('c, 'pr, 'p, 'a) server \<Rightarrow> (exn + unit) \<times> ('c, 'pr, 'p, 'a) server" where
  "log_profiler_stopped w = srv_log fmt_profiler_stopped w"

text \<open>\<^verbatim>\<open>disconnected(client)\<close>.\<close>

definition disconnected ::
  "('c, 'pr, 's, 'p, 'a) env \<Rightarrow> 'c \<Rightarrow> ('c, 'pr, 'p, 'a) server
   \<Rightarrow> (exn + unit) \<times> ('c, 'pr, 'p, 'a) server" where
  "disconnected env client w =
     (if client \<notin> clients w then (Inr (), w)
      else and_then (log_disconnected env client) (\<lambda>_. srv_close env client)
             (w\<lparr>clients := clients w - {client}\<rparr>))"

text \<open>
  \<^verbatim>\<open>connected(client)\<close>. \<open>start_if_single\<close> is its last statement, the test
  \<^verbatim>\<open>len(self.clients) == 1\<close> in front of \<^verbatim>\<open>_start_profiling()\<close>, which both the path with
  no latest data and the path of a successful send reach.
\<close>

definition start_if_single ::
  "('c, 'pr, 's, 'p, 'a) env \<Rightarrow> ('c, 'pr, 'p, 'a) server
   \<Rightarrow> (exn + unit) \<times> ('c, 'pr, 'p, 'a) server" where
  "start_if_single env w =
     (if card (clients w) = 1 then srv_start_profiling env w else (Inr (), w))"

definition connected ::
  "('c, 'pr, 's, 'p, 'a) env \<Rightarrow> 'c \<Rightarrow> ('c, 'pr, 'p, 'a) server
   \<Rightarrow> (exn + unit) \<times> ('c, 'pr, 'p, 'a) server" where
  "connected env client w =
     and_then (log_connected env client) (\<lambda>_.
     and_then (srv_start_watching env client) (\<lambda>_ w2.
       case latest_data w2 of
         None \<Rightarrow> start_if_single env w2
       | Some data \<Rightarrow>
           (case srv_send env client data w2 of
              (Inl e, w3) \<Rightarrow>
                (case e of
                   Socket_error err \<Rightarrow>
                     if err = EBADF \<or> err = EPIPE then disconnected env client w3
                     else (Inl e, w3)
                 | _ \<Rightarrow> (Inl e, w3))
            | (Inr _, w3) \<Rightarrow> start_if_single env w3)))
       (w\<lparr>clients := insert client (clients w)\<rparr>)"

text \<open>
  The broadcast of \<^verbatim>\<open>profiling\<close>: the loop \<^verbatim>\<open>for client in self.clients\<close> over the clients
  that are left, with \<^verbatim>\<open>closed_clients\<close> as built so far. A \<^verbatim>\<open>socket.error\<close> with errno
  \<^verbatim>\<open>EPIPE\<close> appends the client and continues; after any other \<^verbatim>\<open>socket.error\<close> the handler
  ends in \<^verbatim>\<open>pass\<close> and the loop goes on; an exception that is no \<^verbatim>\<open>socket.error\<close> is not
  handled.
\<close>

fun broadcast ::
  "('c, 'pr, 's, 'p, 'a) env \<Rightarrow> bytes \<Rightarrow> 'c list \<Rightarrow> 'c list \<Rightarrow> ('c, 'pr, 'p, 'a) server
   \<Rightarrow> (exn + 'c list) \<times> ('c, 'pr, 'p, 'a) server" where
  "broadcast env data [] closed_clients w = (Inr closed_clients, w)"
| "broadcast env data (client # rest) closed_clients w =
     (case srv_send env client data w of
        (Inl e, w') \<Rightarrow>
          (case e of
             Socket_error err \<Rightarrow>
               if err = EPIPE then broadcast env data rest (closed_clients @ [client]) w'
               else broadcast env data rest closed_clients w'
           | _ \<Rightarrow> (Inl e, w'))
      | (Inr _, w') \<Rightarrow> broadcast env data rest closed_clients w')"

text \<open>The loop \<^verbatim>\<open>for client in closed_clients: self.disconnected(client)\<close>.\<close>

fun handle_disconnections ::
  "('c, 'pr, 's, 'p, 'a) env \<Rightarrow> 'c list \<Rightarrow> ('c, 'pr, 'p, 'a) server
   \<Rightarrow> (exn + unit) \<times> ('c, 'pr, 'p, 'a) server" where
  "handle_disconnections env [] w = (Inr (), w)"
| "handle_disconnections env (client # rest) w =
     and_then (disconnected env client) (\<lambda>_. handle_disconnections env rest) w"

text \<open>
  The generator \<^verbatim>\<open>profiling()\<close>. A generator is created, runs from one \<^verbatim>\<open>yield\<close> to the next
  on every \<^verbatim>\<open>next\<close>, and is closed once it returns or raises. \<open>after_yield\<close> is the body of
  the loop from the \<^verbatim>\<open>yield\<close> to its end; \<open>loop_head\<close> is the test \<^verbatim>\<open>while self.clients\<close> with
  either the statements up to the \<^verbatim>\<open>yield\<close> or the statement after the loop.
\<close>

datatype gen_state = Gen_created | Gen_suspended | Gen_closed

datatype gen_result = Yielded | Stop_iteration

definition after_yield ::
  "('c, 'pr, 's, 'p, 'a) env \<Rightarrow> ('c, 'pr, 'p, 'a) server
   \<Rightarrow> (exn + unit) \<times> ('c, 'pr, 'p, 'a) server" where
  "after_yield env =
     and_then (srv_prof_stop env) (\<lambda>_.
     and_then (srv_pack_stats env) (\<lambda>data.
     and_then (\<lambda>w. (Inr (), w\<lparr>latest_data := Some data\<rparr>)) (\<lambda>_.
     and_then (srv_prof_clear env) (\<lambda>_ w.
     and_then (broadcast env data (set_iter env (clients w)) [])
       (handle_disconnections env) w))))"

definition loop_head ::
  "('c, 'pr, 's, 'p, 'a) env \<Rightarrow> ('c, 'pr, 'p, 'a) server
   \<Rightarrow> (exn + gen_result) \<times> ('c, 'pr, 'p, 'a) server" where
  "loop_head env w =
     (if clients w \<noteq> {} then and_then (srv_prof_start env) (\<lambda>_ w'. (Inr Yielded, w')) w
      else and_then log_profiler_stopped (\<lambda>_ w'. (Inr Stop_iteration, w')) w)"

definition profiling_next ::
  "('c, 'pr, 's, 'p, 'a) env \<Rightarrow> gen_state \<Rightarrow> ('c, 'pr, 'p, 'a) server
   \<Rightarrow> (exn + gen_result) \<times> ('c, 'pr, 'p, 'a) server" where
  "profiling_next env g w =
     (case g of
        Gen_created \<Rightarrow> and_then log_profiler_started (\<lambda>_. loop_head env) w
      | Gen_suspended \<Rightarrow> and_then (after_yield env) (\<lambda>_. loop_head env) w
      | Gen_closed \<Rightarrow> (Inr Stop_iteration, w))"

text \<open>The state of the generator after a \<^verbatim>\<open>next\<close> that ended with \<open>r\<close>.\<close>

definition gen_after :: "exn + gen_result \<Rightarrow> gen_state" where
  "gen_after r = (case r of Inr Yielded \<Rightarrow> Gen_suspended | _ \<Rightarrow> Gen_closed)"

subsection \<open>Notions the properties are stated with\<close>

text \<open>
  The value of a byte string read as a big-endian unsigned integer, as the wire format
  words it (not the code's \<^verbatim>\<open>struct.unpack\<close>, which is \<open>struct_unpack\<close>).
\<close>

definition be_uint :: "bytes \<Rightarrow> nat" where
  "be_uint bs = foldl (\<lambda>v b. 256 * v + unat b) 0 bs"

text \<open>The calls a step added: the trace of the state after it, without the trace before it.\<close>

definition new_events :: "('c, 'pr, 'p, 'a) server \<Rightarrow> ('c, 'pr, 'p, 'a) server \<Rightarrow> 'c event list" where
  "new_events w w' = drop (length (trace w)) (trace w')"

fun is_send :: "'c event \<Rightarrow> bool" where
  "is_send (Send_ev c d r) = True"
| "is_send _ = False"

text \<open>The clients of the \<^verbatim>\<open>_send\<close> calls of a trace, in order, and those of the calls to \<open>c\<close>.\<close>

fun send_targets :: "'c event list \<Rightarrow> 'c list" where
  "send_targets [] = []"
| "send_targets (Send_ev c d r # evs) = c # send_targets evs"
| "send_targets (_ # evs) = send_targets evs"



subsection \<open>A small instance\<close>

text \<open>
  An instance to run the model on. A snapshot is a byte string; the pickle of a snapshot is
  the protocol number followed by it. The profiler's state is the number of samples; its
  result is one byte per sample. The backend's state lists the clients whose socket is
  broken, each with the errno that a send to it raises; clients are numbers.
\<close>

definition test_pickle :: "(bytes, byte) pickle" where
  "test_pickle =
     \<lparr>pickle_dump = (\<lambda>stats protocol. Inr (protocol # stats)),
      pickle_loads = (\<lambda>data.
        case data of [] \<Rightarrow> Inl (Other_exception ''EOFError'') | _ # stats \<Rightarrow> Inr stats)\<rparr>"

definition test_profiler :: "(nat, bytes) profiler_ops" where
  "test_profiler =
     \<lparr>new_profiler = 0,
      prof_start = (\<lambda>n. (Inr (), n)),
      prof_stop = (\<lambda>n. (Inr (), Suc n)),
      prof_clear = (\<lambda>n. (Inr (), 0)),
      prof_result = (\<lambda>n. (Inr (replicate n 7), n))\<rparr>"

definition test_adapter :: "(nat, (nat \<times> errno) list) adapter_ops" where
  "test_adapter =
     \<lparr>ad_send = (\<lambda>client data a.
         (case map_of a client of None \<Rightarrow> Inr () | Some e \<Rightarrow> Inl (Socket_error e), a)),
      ad_close = (\<lambda>client a. (Inr (), a)),
      ad_addr = (\<lambda>client a. (Inr (Addr_tuple [''127.0.0.1'', str_nat client]), a)),
      ad_start_profiling = (\<lambda>a. (Inr (), a)),
      ad_start_watching = (\<lambda>client a. (Inr (), a))\<rparr>"

definition test_env :: "(nat, nat, bytes, byte, (nat \<times> errno) list) env" where
  "test_env =
     \<lparr>pickle_of = test_pickle, profiler_of = test_profiler, adapter_of = test_adapter,
      set_iter = sorted_list_of_set\<rparr>"

text \<open>
  A server of that instance with the given clients, latest frame and broken sockets; nothing
  logged yet.
\<close>

definition test_server ::
  "nat set \<Rightarrow> bytes option \<Rightarrow> (nat \<times> errno) list \<Rightarrow> (nat, nat, byte, (nat \<times> errno) list) server" where
  "test_server cs latest broken =
     (init_server test_env None 5 2 broken)\<lparr>clients := cs, latest_data := latest\<rparr>"

section \<open>Properties\<close>

subsection \<open>The frame codec\<close>

lemma be32_value:
  assumes "n < 2 ^ 32"
  shows "unat (of_nat (n div 2 ^ 24) :: byte) * 2 ^ 24 + unat (of_nat (n div 2 ^ 16) :: byte) * 2 ^ 16
        + unat (of_nat (n div 2 ^ 8) :: byte) * 2 ^ 8 + unat (of_nat n :: byte) = n"
proof -
  define q1 where "q1 = n div 256"
  define q2 where "q2 = q1 div 256"
  define q3 where "q3 = q2 div 256"
  have d1: "n div 256 = q1" by (simp add: q1_def)
  have d2: "n div 65536 = q2"
    using div_mult2_eq [of n 256 256] by (simp add: q1_def q2_def)
  have d3: "n div 16777216 = q3"
    using div_mult2_eq [of n 65536 256] div_mult2_eq [of n 256 256] by (simp add: q1_def q2_def q3_def)
  have "q3 < 256" using assms d3 by (simp add: less_mult_imp_div_less)
  then have m3: "q3 mod 256 = q3" by simp
  have e1: "n = 256 * q1 + n mod 256" by (simp add: q1_def)
  have e2: "q1 = 256 * q2 + q1 mod 256" by (simp add: q2_def)
  have e3: "q2 = 256 * q3 + q2 mod 256" by (simp add: q3_def)
  have "q3 * 16777216 + q2 mod 256 * 65536 + q1 mod 256 * 256 + n mod 256 = n"
    using e1 e2 e3 by linarith
  then show ?thesis by (simp add: unat_of_nat d1 d2 d3 m3)
qed

lemma struct_pack_fits: "struct_pack n = Inr header \<Longrightarrow> n < 2 ^ 32"
  by (auto simp: struct_pack_def split: if_splits)

lemma struct_pack_total: "n < 2 ^ 32 \<Longrightarrow> \<exists>header. struct_pack n = Inr header"
  by (simp add: struct_pack_def)

lemma struct_unpack_pack: "struct_pack n = Inr header \<Longrightarrow> struct_unpack header = Inr n"
  using be32_value [of n] by (auto simp: struct_pack_def struct_unpack_def split: if_splits)

lemma struct_pack_length: "struct_pack n = Inr header \<Longrightarrow> length header = 4"
  by (auto simp: struct_pack_def split: if_splits)

lemma be_uint_pack: "struct_pack n = Inr header \<Longrightarrow> be_uint header = n"
  using be32_value [of n] by (auto simp: struct_pack_def be_uint_def split: if_splits)

lemma pack_stats_of_payload:
  assumes "prof_result po prof = (Inr stats, prof')"
    and "pickle_dump pk stats protocol = Inr payload"
  shows "pack_stats pk po prof protocol =
           (case struct_pack (length payload) of
              Inl e \<Rightarrow> (Inl e, prof')
            | Inr header \<Rightarrow> (Inr (header @ payload), prof'))"
  using assms by (simp add: pack_stats_def)

lemma recv_enough:
  "sz \<le> length (incoming s) \<Longrightarrow>
   recv s sz = Some (Inr (take sz (incoming s)), s\<lparr>incoming := drop sz (incoming s)\<rparr>)"
  by (simp add: recv_def sock_recv_def)

text \<open>
  C5. \<^verbatim>\<open>recv(sock, size)\<close> returns exactly \<open>size\<close> bytes when that many arrive before the
  peer closes; when the peer closes with fewer bytes delivered (none, or some) it raises the
  \<^verbatim>\<open>socket.error\<close> "Connection closed" and returns no partial data; whatever it returns has
  exactly \<open>size\<close> bytes. (With fewer bytes and a peer that stays open the call blocks.)
\<close>

theorem recv_exact:
  "(sz \<le> length (incoming s) \<longrightarrow>
      recv s sz = Some (Inr (take sz (incoming s)), s\<lparr>incoming := drop sz (incoming s)\<rparr>)) \<and>
   (length (incoming s) < sz \<and> peer_closes s \<longrightarrow>
      recv s sz = Some (Inl (Socket_error ECONNRESET), s\<lparr>incoming := []\<rparr>)) \<and>
   (length (incoming s) < sz \<and> \<not> peer_closes s \<longrightarrow> recv s sz = None) \<and>
   (\<forall>data s'. recv s sz = Some (Inr data, s') \<longrightarrow> length data = sz)"
  by (auto simp: recv_def sock_recv_def split: if_splits)

theorem recv_exact_witness:
  "recv \<lparr>incoming = [1, 2, 3], peer_closes = True\<rparr> 2
     = Some (Inr [1, 2], \<lparr>incoming = [3], peer_closes = True\<rparr>) \<and>
   recv \<lparr>incoming = [1, 2, 3], peer_closes = True\<rparr> 5
     = Some (Inl (Socket_error ECONNRESET), \<lparr>incoming = [], peer_closes = True\<rparr>) \<and>
   recv \<lparr>incoming = [], peer_closes = True\<rparr> 4
     = Some (Inl (Socket_error ECONNRESET), \<lparr>incoming = [], peer_closes = True\<rparr>)"
  using recv_exact [of 2 "\<lparr>incoming = [1, 2, 3], peer_closes = True\<rparr>"]
        recv_exact [of 5 "\<lparr>incoming = [1, 2, 3], peer_closes = True\<rparr>"]
        recv_exact [of 4 "\<lparr>incoming = [], peer_closes = True\<rparr>"]
  by simp

text \<open>
  C6. The frame \<^verbatim>\<open>pack_stats\<close> produces for a snapshot and a protocol is a header of 4 bytes,
  whose value as a big-endian unsigned integer is the length of the pickled payload, followed
  by the payload and nothing else. A frame is produced whenever the payload is shorter than
  \<open>2 ^ 32\<close> bytes, and only then (\<^verbatim>\<open>struct.pack\<close> raises otherwise).
\<close>

theorem pack_stats_wire_format:
  assumes "prof_result po prof = (Inr stats, prof')"
    and "pickle_dump pk stats protocol = Inr payload"
  shows "(length payload < 2 ^ 32 \<longrightarrow>
            (\<exists>header. pack_stats pk po prof protocol = (Inr (header @ payload), prof') \<and>
                      length header = 4 \<and> be_uint header = length payload)) \<and>
         (\<forall>frame p. pack_stats pk po prof protocol = (Inr frame, p) \<longrightarrow>
            length payload < 2 ^ 32 \<and> length frame = 4 + length payload \<and>
            be_uint (take 4 frame) = length payload \<and> drop 4 frame = payload)"
proof (intro conjI impI allI)
  note ps = pack_stats_of_payload [OF assms]
  {
    assume "length payload < 2 ^ 32"
    then obtain header where h: "struct_pack (length payload) = Inr header"
      using struct_pack_total by blast
    with ps struct_pack_length [OF h] be_uint_pack [OF h]
    show "\<exists>header. pack_stats pk po prof protocol = (Inr (header @ payload), prof') \<and>
                    length header = 4 \<and> be_uint header = length payload"
      by simp
  }
  {
    fix frame p
    assume fr: "pack_stats pk po prof protocol = (Inr frame, p)"
    with ps obtain header where h: "struct_pack (length payload) = Inr header"
      and f: "frame = header @ payload"
      by (cases "struct_pack (length payload)") auto
    from struct_pack_fits [OF h] show "length payload < 2 ^ 32" .
    from f struct_pack_length [OF h] show "length frame = 4 + length payload" by simp
    from f struct_pack_length [OF h] be_uint_pack [OF h]
    show "be_uint (take 4 frame) = length payload" by simp
    from f struct_pack_length [OF h] show "drop 4 frame = payload" by simp
  }
qed

theorem pack_stats_wire_format_witness:
  "pack_stats test_pickle test_profiler 1 2 = (Inr ([0, 0, 0, 2] @ [2, 7]), 1) \<and>
   be_uint [0, 0, 0, 2] = length [2 :: byte, 7]"
proof -
  have r: "prof_result test_profiler 1 = (Inr [7], 1)"
    by (simp add: test_profiler_def)
  have d: "pickle_dump test_pickle [7] 2 = Inr [2, 7]"
    by (simp add: test_pickle_def)
  have "length [2 :: byte, 7] < 2 ^ 32" by simp
  with pack_stats_wire_format [OF r d] obtain header where
    h: "pack_stats test_pickle test_profiler 1 2 = (Inr (header @ [2, 7]), 1)"
       "length header = 4" "be_uint header = length [2 :: byte, 7]"
    by blast
  from pack_stats_wire_format [OF r d] h(1)
  have "be_uint (take 4 (header @ [2, 7])) = length [2 :: byte, 7]" by blast
  have "pack_stats test_pickle test_profiler 1 2 = (Inr [0, 0, 0, 2, 2, 7], 1)"
    by (simp add: pack_stats_def test_profiler_def test_pickle_def struct_pack_def)
  with h have "header = [0, 0, 0, 2]" by simp
  with h show ?thesis by simp
qed

text \<open>
  C1. Round trip. Let \<open>stats\<close> be the snapshot \<^verbatim>\<open>pack_stats\<close> takes from the profiler and
  \<open>frame\<close> the bytes it returns for it under any protocol. On a socket whose incoming bytes
  start with exactly that frame, \<^verbatim>\<open>recv_stats\<close> returns \<open>stats\<close> and consumes the frame and
  nothing more, provided \<^verbatim>\<open>pickle.loads\<close> inverts \<^verbatim>\<open>pickle.dump\<close> on this snapshot.
\<close>

theorem round_trip:
  assumes "prof_result po prof = (Inr stats, prof')"
    and "pack_stats pk po prof protocol = (Inr frame, prof')"
    and "\<forall>payload. pickle_dump pk stats protocol = Inr payload \<longrightarrow> pickle_loads pk payload = Inr stats"
    and "incoming s = frame @ rest"
  shows "recv_stats pk s = Some (Inr stats, s\<lparr>incoming := rest\<rparr>)"
proof -
  from assms(1,2) obtain payload header where
    p: "pickle_dump pk stats protocol = Inr payload"
    and h: "struct_pack (length payload) = Inr header"
    and f: "frame = header @ payload"
    by (auto simp: pack_stats_def Let_def split: sum.splits)
  have l: "length header = 4" by (rule struct_pack_length [OF h])
  let ?s1 = "s\<lparr>incoming := payload @ rest\<rparr>"
  have r1: "recv s struct_calcsize = Some (Inr header, ?s1)"
    using recv_enough [of 4 s] assms(4) f l by (simp add: struct_calcsize_def)
  have r2: "recv ?s1 (length payload) = Some (Inr payload, s\<lparr>incoming := rest\<rparr>)"
    using recv_enough [of "length payload" ?s1] by simp
  from assms(3) p have "pickle_loads pk payload = Inr stats" by blast
  with r1 r2 struct_unpack_pack [OF h] show ?thesis
    by (simp add: recv_stats_def)
qed

theorem round_trip_witness:
  "recv_stats test_pickle \<lparr>incoming = [0, 0, 0, 2, 2, 7], peer_closes = False\<rparr>
     = Some (Inr [7], \<lparr>incoming = [], peer_closes = False\<rparr>)"
proof -
  have r: "prof_result test_profiler 1 = (Inr [7], 1)"
    by (simp add: test_profiler_def)
  have p: "pack_stats test_pickle test_profiler 1 2 = (Inr [0, 0, 0, 2, 2, 7], 1)"
    by (simp add: pack_stats_def test_profiler_def test_pickle_def struct_pack_def)
  have l: "\<forall>payload. pickle_dump test_pickle [7] 2 = Inr payload \<longrightarrow>
             pickle_loads test_pickle payload = Inr [7]"
    by (auto simp: test_pickle_def)
  have i: "incoming \<lparr>incoming = [0, 0, 0, 2, 2, 7], peer_closes = False\<rparr> = [0, 0, 0, 2, 2, 7] @ []"
    by simp
  from round_trip [OF r p l i] show ?thesis by simp
qed

subsection \<open>The server: what each call changes\<close>

lemma and_then_cases:
  assumes "and_then m f w = (r, w'')"
  obtains (raised) e where "m w = (Inl e, w'')" "r = Inl e"
        | (went_on) x w' where "m w = (Inr x, w')" "f x w' = (r, w'')"
  using assms by (auto simp: and_then_def split: prod.splits sum.splits)

text \<open>Each call on a collaborator leaves the clients and the latest frame alone.\<close>

lemma srv_log_effect:
  "srv_log msg w = (r, w') \<Longrightarrow>
   r = Inr () \<and> clients w' = clients w \<and> latest_data w' = latest_data w \<and>
   trace w' = trace w @ [Log_ev msg]"
  by (auto simp: srv_log_def)

lemma srv_send_effect:
  "srv_send env c d w = (r, w') \<Longrightarrow>
   clients w' = clients w \<and> latest_data w' = latest_data w \<and> trace w' = trace w @ [Send_ev c d r]"
  by (auto simp: srv_send_def split: prod.splits)

lemma srv_close_effect:
  "srv_close env c w = (r, w') \<Longrightarrow>
   clients w' = clients w \<and> latest_data w' = latest_data w \<and> trace w' = trace w @ [Close_ev c]"
  by (auto simp: srv_close_def split: prod.splits)

lemma srv_addr_effect:
  "srv_addr env c w = (r, w') \<Longrightarrow>
   clients w' = clients w \<and> latest_data w' = latest_data w \<and> trace w' = trace w"
  by (auto simp: srv_addr_def split: prod.splits)

lemma srv_start_profiling_effect:
  "srv_start_profiling env w = (r, w') \<Longrightarrow>
   clients w' = clients w \<and> latest_data w' = latest_data w \<and> trace w' = trace w @ [Start_profiling_ev]"
  by (auto simp: srv_start_profiling_def split: prod.splits)

lemma srv_start_watching_effect:
  "srv_start_watching env c w = (r, w') \<Longrightarrow>
   clients w' = clients w \<and> latest_data w' = latest_data w \<and> trace w' = trace w @ [Start_watching_ev c]"
  by (auto simp: srv_start_watching_def split: prod.splits)





lemma log_connected_effect:
  assumes "log_connected env c w = (r, w')"
  shows "clients w' = clients w \<and> latest_data w' = latest_data w \<and>
         (\<exists>evs. trace w' = trace w @ evs \<and> (\<forall>e \<in> set evs. \<exists>m. e = Log_ev m))"
proof -
  from assms have run: "and_then (srv_addr env c) (\<lambda>addr w.
       case fmt_connected (tuple_or_none addr) (card (clients w)) of
         Inl e \<Rightarrow> (Inl e, w)
       | Inr msg \<Rightarrow> srv_log msg w) w = (r, w')"
    by (simp add: log_connected_def)
  from run show ?thesis
  proof (cases rule: and_then_cases)
    case (raised e)
    from srv_addr_effect [OF raised(1)] show ?thesis by simp
  next
    case (went_on addr w1)
    note a = srv_addr_effect [OF went_on(1)]
    show ?thesis
    proof (cases "fmt_connected (tuple_or_none addr) (card (clients w1))")
      case (Inl e)
      with went_on(2) have "w' = w1" by simp
      with a show ?thesis by simp
    next
      case (Inr msg)
      with went_on(2) have "srv_log msg w1 = (r, w')" by simp
      from srv_log_effect [OF this] a show ?thesis by simp
    qed
  qed
qed

lemma log_disconnected_effect:
  assumes "log_disconnected env c w = (r, w')"
  shows "clients w' = clients w \<and> latest_data w' = latest_data w \<and>
         (\<exists>evs. trace w' = trace w @ evs \<and> (\<forall>e \<in> set evs. \<exists>m. e = Log_ev m))"
proof -
  from assms have run: "and_then (srv_addr env c) (\<lambda>addr w.
       case fmt_disconnected (tuple_or_none addr) (card (clients w)) of
         Inl e \<Rightarrow> (Inl e, w)
       | Inr msg \<Rightarrow> srv_log msg w) w = (r, w')"
    by (simp add: log_disconnected_def)
  from run show ?thesis
  proof (cases rule: and_then_cases)
    case (raised e)
    from srv_addr_effect [OF raised(1)] show ?thesis by simp
  next
    case (went_on addr w1)
    note a = srv_addr_effect [OF went_on(1)]
    show ?thesis
    proof (cases "fmt_disconnected (tuple_or_none addr) (card (clients w1))")
      case (Inl e)
      with went_on(2) have "w' = w1" by simp
      with a show ?thesis by simp
    next
      case (Inr msg)
      with went_on(2) have "srv_log msg w1 = (r, w')" by simp
      from srv_log_effect [OF this] a show ?thesis by simp
    qed
  qed
qed



subsection \<open>disconnected\<close>

lemma disconnected_absent: "client \<notin> clients w \<Longrightarrow> disconnected env client w = (Inr (), w)"
  by (simp add: disconnected_def)

lemma disconnected_effect:
  assumes "disconnected env c w = (r, w')"
  shows "clients w' = clients w - {c} \<and> latest_data w' = latest_data w \<and>
         (\<exists>evs. trace w' = trace w @ evs \<and> (\<forall>e \<in> set evs. \<not> is_send e) \<and>
                (r = Inr () \<and> c \<in> clients w \<longrightarrow> Close_ev c \<in> set evs) \<and>
                Start_profiling_ev \<notin> set evs)"
proof (cases "c \<in> clients w")
  case False
  with assms show ?thesis by (auto simp: disconnected_def)
next
  case True
  let ?w1 = "w\<lparr>clients := clients w - {c}\<rparr>"
  from True assms have run: "and_then (log_disconnected env c) (\<lambda>_. srv_close env c) ?w1 = (r, w')"
    by (simp add: disconnected_def)
  from run show ?thesis
  proof (cases rule: and_then_cases)
    case (raised e)
    from log_disconnected_effect [OF raised(1)] obtain evs where
      "clients w' = clients w - {c}" "latest_data w' = latest_data w"
      "trace w' = trace w @ evs" "\<forall>e \<in> set evs. \<exists>m. e = Log_ev m"
      by auto
    moreover from this have "\<forall>e \<in> set evs. \<not> is_send e" "Start_profiling_ev \<notin> set evs"
      by auto
    ultimately show ?thesis using raised(2) by auto
  next
    case (went_on x w2)
    from log_disconnected_effect [OF went_on(1)] obtain evs where l:
      "clients w2 = clients w - {c}" "latest_data w2 = latest_data w"
      "trace w2 = trace w @ evs" "\<forall>e \<in> set evs. \<exists>m. e = Log_ev m"
      by auto
    from this have n: "\<forall>e \<in> set evs. \<not> is_send e" "Start_profiling_ev \<notin> set evs"
      by auto
    from srv_close_effect [OF went_on(2)] l have
      "clients w' = clients w - {c}" "latest_data w' = latest_data w"
      "trace w' = trace w @ (evs @ [Close_ev c])"
      by auto
    moreover have "\<forall>e \<in> set (evs @ [Close_ev c]). \<not> is_send e"
      "Start_profiling_ev \<notin> set (evs @ [Close_ev c])" "Close_ev c \<in> set (evs @ [Close_ev c])"
      using n by auto
    ultimately show ?thesis by blast
  qed
qed

lemma new_events_append: "trace w' = trace w @ evs \<Longrightarrow> new_events w w' = evs"
  by (simp add: new_events_def)

lemma send_targets_append: "send_targets (xs @ ys) = send_targets xs @ send_targets ys"
  by (induction xs rule: send_targets.induct) auto


lemma send_targets_no_sends: "\<forall>e \<in> set evs. \<not> is_send e \<Longrightarrow> send_targets evs = []"
  by (induction evs rule: send_targets.induct) auto


lemma card_insert_single: "(card (insert c S) = 1) = (S \<subseteq> {c})"
proof
  assume "card (insert c S) = 1"
  then obtain x where "insert c S = {x}" by (auto simp: card_1_singleton_iff)
  then show "S \<subseteq> {c}" by auto
next
  assume "S \<subseteq> {c}"
  then have "insert c S = {c}" by auto
  moreover have "card {c} = 1" by simp
  ultimately show "card (insert c S) = 1" by (simp only:)
qed

lemma start_if_single_effect:
  assumes "start_if_single env w = (r, w')"
  shows "clients w' = clients w \<and> latest_data w' = latest_data w \<and>
         trace w' = trace w @ (if card (clients w) = 1 then [Start_profiling_ev] else [])"
  using assms by (auto simp: start_if_single_def dest!: srv_start_profiling_effect split: if_splits)

text \<open>connected, once the log call and the watch call have returned\<close>

lemma connected_after_watching:
  assumes lg: "log_connected env client (w\<lparr>clients := insert client (clients w)\<rparr>) = (Inr (), w2)"
    and wt: "srv_start_watching env client w2 = (Inr (), w3)"
  shows "connected env client w =
     (case latest_data w of
         None \<Rightarrow> start_if_single env w3
       | Some data \<Rightarrow>
           (case srv_send env client data w3 of
              (Inl e, w4) \<Rightarrow>
                (case e of
                   Socket_error err \<Rightarrow>
                     if err = EBADF \<or> err = EPIPE then disconnected env client w4
                     else (Inl e, w4)
                 | _ \<Rightarrow> (Inl e, w4))
            | (Inr _, w4) \<Rightarrow> start_if_single env w4))"
proof -
  have ld: "latest_data w3 = latest_data w"
    using log_connected_effect [OF lg] srv_start_watching_effect [OF wt] by simp
  have s1: "and_then (log_connected env client) f (w\<lparr>clients := insert client (clients w)\<rparr>) = f () w2" for f
    using lg by (simp add: and_then_def)
  have s2: "and_then (srv_start_watching env client) f w2 = f () w3" for f
    using wt by (simp add: and_then_def)
  show ?thesis
    by (simp add: connected_def s1 s2 ld)
qed

lemma watching_state:
  assumes lg: "log_connected env client (w\<lparr>clients := insert client (clients w)\<rparr>) = (Inr (), w2)"
    and wt: "srv_start_watching env client w2 = (Inr (), w3)"
  shows "clients w3 = insert client (clients w) \<and> latest_data w3 = latest_data w \<and>
         (\<exists>evs. trace w3 = trace w @ evs \<and> (\<forall>e \<in> set evs. \<not> is_send e) \<and>
                Start_profiling_ev \<notin> set evs \<and> Close_ev client \<notin> set evs)"
  using log_connected_effect [OF lg] srv_start_watching_effect [OF wt] by fastforce

subsection \<open>connected and disconnected\<close>

lemmas test_defs =
  test_server_def init_server_def test_env_def test_adapter_def test_profiler_def test_pickle_def

lemmas run_defs =
  and_then_def srv_log_def srv_send_def srv_close_def srv_addr_def srv_start_profiling_def
  srv_start_watching_def srv_prof_start_def srv_prof_stop_def srv_prof_clear_def
  srv_pack_stats_def log_connected_def log_disconnected_def log_profiler_started_def
  log_profiler_stopped_def tuple_or_none_def fmt_connected_def fmt_disconnected_def
  fmt_profiler_started_def fmt_profiler_stopped_def disconnected_def start_if_single_def
  connected_def after_yield_def loop_head_def profiling_next_def pack_stats_def
  struct_pack_def new_events_def insert_Diff_if

text \<open>
  C4. Catch-up delivery. Once \<^verbatim>\<open>connected(client)\<close> has logged and asked the backend to
  watch the client: with no latest frame it sends nothing; with a latest frame it sends
  exactly that frame to the client, once. If the send returns, \<^verbatim>\<open>connected\<close> goes on to its
  last statement. If the send raises a \<^verbatim>\<open>socket.error\<close> with errno \<^verbatim>\<open>EPIPE\<close> or \<^verbatim>\<open>EBADF\<close>,
  \<^verbatim>\<open>connected\<close> is the call \<^verbatim>\<open>disconnected(client)\<close> on a set that holds the client and
  nothing after it, so it returns without raising when the log and close calls of that
  disconnection return. Any other exception of the send leaves \<^verbatim>\<open>connected\<close> as it is.
\<close>

theorem catch_up_delivery:
  assumes lg: "log_connected env client (w\<lparr>clients := insert client (clients w)\<rparr>) = (Inr (), w2)"
    and wt: "srv_start_watching env client w2 = (Inr (), w3)"
    and res: "connected env client w = (r, w')"
  shows "(latest_data w = None \<longrightarrow>
            connected env client w = start_if_single env w3 \<and> send_targets (new_events w w') = []) \<and>
         (\<forall>data. latest_data w = Some data \<longrightarrow>
            (\<exists>rs w4. srv_send env client data w3 = (rs, w4) \<and>
               send_targets (new_events w w') = [client] \<and>
               Send_ev client data rs \<in> set (new_events w w') \<and>
               (rs = Inr () \<longrightarrow> connected env client w = start_if_single env w4) \<and>
               (rs = Inl (Socket_error EPIPE) \<or> rs = Inl (Socket_error EBADF) \<longrightarrow>
                  client \<in> clients w4 \<and>
                  connected env client w = disconnected env client w4 \<and>
                  (\<forall>w5 w6. log_disconnected env client (w4\<lparr>clients := clients w4 - {client}\<rparr>) = (Inr (), w5) \<and>
                           srv_close env client w5 = (Inr (), w6) \<longrightarrow>
                           connected env client w = (Inr (), w6))) \<and>
               (\<forall>e. rs = Inl e \<and> e \<noteq> Socket_error EPIPE \<and> e \<noteq> Socket_error EBADF \<longrightarrow>
                  connected env client w = (Inl e, w4))))"
proof (intro conjI impI allI)
  note unf = connected_after_watching [OF lg wt]
  from watching_state [OF lg wt] obtain evs where st:
    "clients w3 = insert client (clients w)" "latest_data w3 = latest_data w"
    "trace w3 = trace w @ evs" "\<forall>e \<in> set evs. \<not> is_send e"
    by blast
  {
    assume none: "latest_data w = None"
    with unf show c: "connected env client w = start_if_single env w3" by simp
    with res have "start_if_single env w3 = (r, w')" by simp
    from start_if_single_effect [OF this] st
    have "new_events w w' = evs @ (if card (clients w3) = 1 then [Start_profiling_ev] else [])"
      by (intro new_events_append) simp
    with st(4) show "send_targets (new_events w w') = []"
      by (simp add: send_targets_append send_targets_no_sends)
  }
  {
    fix data assume some: "latest_data w = Some data"
    obtain rs w4 where sd: "srv_send env client data w3 = (rs, w4)" by (cases "srv_send env client data w3")
    note se = srv_send_effect [OF sd]
    have tr4: "trace w4 = trace w @ evs @ [Send_ev client data rs]" using se st by simp
    have cl4: "client \<in> clients w4" using se st by simp
    have ok: "rs = Inr () \<Longrightarrow> connected env client w = start_if_single env w4"
      using unf some sd by simp
    have gone: "rs = Inl (Socket_error EPIPE) \<or> rs = Inl (Socket_error EBADF) \<Longrightarrow>
                connected env client w = disconnected env client w4"
      using unf some sd by auto
    have other: "rs = Inl e \<Longrightarrow> e \<noteq> Socket_error EPIPE \<Longrightarrow> e \<noteq> Socket_error EBADF \<Longrightarrow>
                connected env client w = (Inl e, w4)" for e
      using unf some sd by (cases e) auto
    have "\<exists>evs'. trace w' = trace w4 @ evs' \<and> (\<forall>e \<in> set evs'. \<not> is_send e)"
    proof (cases rs)
      case (Inr u)
      with ok res have "start_if_single env w4 = (r, w')" by simp
      from start_if_single_effect [OF this] show ?thesis by auto
    next
      case (Inl e)
      show ?thesis
      proof (cases "e = Socket_error EPIPE \<or> e = Socket_error EBADF")
        case True
        with gone Inl res have "disconnected env client w4 = (r, w')" by auto
        from disconnected_effect [OF this] show ?thesis by blast
      next
        case False
        with other [OF Inl] res have "w' = w4" by simp
        then show ?thesis by simp
      qed
    qed
    then obtain evs' where tr': "trace w' = trace w4 @ evs'" "\<forall>e \<in> set evs'. \<not> is_send e" by blast
    have ne: "new_events w w' = evs @ [Send_ev client data rs] @ evs'"
      using tr' tr4 by (intro new_events_append) simp
    have tg: "send_targets (new_events w w') = [client]"
      using st(4) tr'(2) by (simp add: ne send_targets_append send_targets_no_sends)
    have mem: "Send_ev client data rs \<in> set (new_events w w')" by (simp add: ne)
    have quiet: "log_disconnected env client (w4\<lparr>clients := clients w4 - {client}\<rparr>) = (Inr (), w5) \<and>
                 srv_close env client w5 = (Inr (), w6) \<Longrightarrow>
                 disconnected env client w4 = (Inr (), w6)" for w5 w6
      using cl4 by (simp add: disconnected_def and_then_def)
    show "\<exists>rs w4. srv_send env client data w3 = (rs, w4) \<and>
               send_targets (new_events w w') = [client] \<and>
               Send_ev client data rs \<in> set (new_events w w') \<and>
               (rs = Inr () \<longrightarrow> connected env client w = start_if_single env w4) \<and>
               (rs = Inl (Socket_error EPIPE) \<or> rs = Inl (Socket_error EBADF) \<longrightarrow>
                  client \<in> clients w4 \<and>
                  connected env client w = disconnected env client w4 \<and>
                  (\<forall>w5 w6. log_disconnected env client (w4\<lparr>clients := clients w4 - {client}\<rparr>) = (Inr (), w5) \<and>
                           srv_close env client w5 = (Inr (), w6) \<longrightarrow>
                           connected env client w = (Inr (), w6))) \<and>
               (\<forall>e. rs = Inl e \<and> e \<noteq> Socket_error EPIPE \<and> e \<noteq> Socket_error EBADF \<longrightarrow>
                  connected env client w = (Inl e, w4))"
      using sd tg mem ok gone other cl4 quiet by (intro exI [of _ rs] exI [of _ w4]) (simp, metis)
  }
qed

theorem catch_up_delivery_witness:
  "send_targets (new_events (test_server {} (Some [0, 0, 0, 1, 9]) [(2, EPIPE)])
     (snd (connected test_env 2 (test_server {} (Some [0, 0, 0, 1, 9]) [(2, EPIPE)])))) = [2] \<and>
   fst (connected test_env 2 (test_server {} (Some [0, 0, 0, 1, 9]) [(2, EPIPE)])) = Inr () \<and>
   send_targets (new_events (test_server {} None [])
     (snd (connected test_env 2 (test_server {} None [])))) = []"
proof -
  let ?w = "test_server {} (Some [0, 0, 0, 1, 9]) [(2, EPIPE)]"
  let ?v = "test_server {} None []"
  let ?w2 = "snd (log_connected test_env 2 (?w\<lparr>clients := insert 2 (clients ?w)\<rparr>))"
  let ?v2 = "snd (log_connected test_env 2 (?v\<lparr>clients := insert 2 (clients ?v)\<rparr>))"
  have lg: "log_connected test_env 2 (?w\<lparr>clients := insert 2 (clients ?w)\<rparr>) = (Inr (), ?w2)"
    by (simp add: test_defs run_defs)
  have wt: "srv_start_watching test_env 2 ?w2 = (Inr (), snd (srv_start_watching test_env 2 ?w2))"
    by (simp add: test_defs run_defs)
  have res: "connected test_env 2 ?w = (fst (connected test_env 2 ?w), snd (connected test_env 2 ?w))"
    by simp
  have ld: "latest_data ?w = Some [0, 0, 0, 1, 9]"
    by (simp add: test_defs)
  have lg': "log_connected test_env 2 (?v\<lparr>clients := insert 2 (clients ?v)\<rparr>) = (Inr (), ?v2)"
    by (simp add: test_defs run_defs)
  have wt': "srv_start_watching test_env 2 ?v2 = (Inr (), snd (srv_start_watching test_env 2 ?v2))"
    by (simp add: test_defs run_defs)
  have res': "connected test_env 2 ?v = (fst (connected test_env 2 ?v), snd (connected test_env 2 ?v))"
    by simp
  have ld': "latest_data ?v = None"
    by (simp add: test_defs)
  have "send_targets (new_events ?w (snd (connected test_env 2 ?w))) = [2]"
    using catch_up_delivery [OF lg wt res] ld by blast
  moreover have "send_targets (new_events ?v (snd (connected test_env 2 ?v))) = []"
    using catch_up_delivery [OF lg' wt' res'] ld' by blast
  moreover have "fst (connected test_env 2 ?w) = Inr ()"
    by (simp add: test_defs run_defs)
  ultimately show ?thesis by simp
qed

text \<open>
  C3 as the spec states it fails: a \<^verbatim>\<open>connected(client)\<close> call whose argument is already the
  only member of the set schedules the loop again.
\<close>

theorem connected_member_counterexample:
  "1 \<in> clients (test_server {1} None []) \<and>
   Start_profiling_ev \<in> set (new_events (test_server {1} None [])
     (snd (connected test_env 1 (test_server {1} None []))))"
  by (simp add: test_defs run_defs)

text \<open>
  C3, amended. Once \<^verbatim>\<open>connected(client)\<close> has logged and asked the backend to watch the
  client, it calls \<^verbatim>\<open>_start_profiling\<close> once when the set holds exactly one client after the
  add (before the call it was empty or held only this client) and the catch-up send, if a
  latest frame was there, returned; in every other case it does not call it.
\<close>

theorem start_profiling_when_single:
  assumes lg: "log_connected env client (w\<lparr>clients := insert client (clients w)\<rparr>) = (Inr (), w2)"
    and wt: "srv_start_watching env client w2 = (Inr (), w3)"
    and res: "connected env client w = (r, w')"
  shows "count_list (new_events w w') Start_profiling_ev =
           (if clients w \<subseteq> {client} \<and>
               (latest_data w = None \<or>
                (\<exists>data w4. latest_data w = Some data \<and> srv_send env client data w3 = (Inr (), w4)))
            then 1 else 0)"
proof -
  note unf = connected_after_watching [OF lg wt]
  from watching_state [OF lg wt] obtain evs where st:
    "clients w3 = insert client (clients w)" "latest_data w3 = latest_data w"
    "trace w3 = trace w @ evs" "Start_profiling_ev \<notin> set evs"
    by blast
  have tail: "start_if_single env v = (r, w') \<Longrightarrow> clients v = insert client (clients w) \<Longrightarrow>
              trace v = trace w @ evs @ more \<Longrightarrow> Start_profiling_ev \<notin> set more \<Longrightarrow>
              count_list (new_events w w') Start_profiling_ev = (if clients w \<subseteq> {client} then 1 else 0)"
    for v more
  proof -
    assume a: "start_if_single env v = (r, w')" "clients v = insert client (clients w)"
      "trace v = trace w @ evs @ more" "Start_profiling_ev \<notin> set more"
    from start_if_single_effect [OF a(1)] a(2,3)
    have "new_events w w' = evs @ more @ (if clients w \<subseteq> {client} then [Start_profiling_ev] else [])"
      by (intro new_events_append) (simp add: card_insert_single [simplified])
    with st(4) a(4) show ?thesis by simp
  qed
  show ?thesis
  proof (cases "latest_data w")
    case None
    with unf res have "start_if_single env w3 = (r, w')" by simp
    from tail [OF this st(1), of "[]"] st(3) None show ?thesis by simp
  next
    case (Some data)
    obtain rs w4 where sd: "srv_send env client data w3 = (rs, w4)"
      by (cases "srv_send env client data w3")
    note se = srv_send_effect [OF sd]
    have tr4: "trace w4 = trace w @ evs @ [Send_ev client data rs]" using se st by simp
    have cl4: "clients w4 = insert client (clients w)" using se st by simp
    show ?thesis
    proof (cases rs)
      case (Inr u)
      with unf Some sd res have "start_if_single env w4 = (r, w')" by simp
      from tail [OF this cl4 tr4] Some sd Inr show ?thesis by simp
    next
      case (Inl e)
      have "\<exists>evs'. trace w' = trace w4 @ evs' \<and> Start_profiling_ev \<notin> set evs'"
      proof (cases "e = Socket_error EPIPE \<or> e = Socket_error EBADF")
        case True
        with unf Some sd Inl res have "disconnected env client w4 = (r, w')" by auto
        from disconnected_effect [OF this] show ?thesis by blast
      next
        case False
        with unf Some sd Inl res have "w' = w4" by (cases e) auto
        then show ?thesis by simp
      qed
      then obtain evs' where "trace w' = trace w4 @ evs'" "Start_profiling_ev \<notin> set evs'"
        by blast
      with tr4 have "new_events w w' = evs @ [Send_ev client data rs] @ evs'"
        by (intro new_events_append) simp
      with st(4) \<open>Start_profiling_ev \<notin> set evs'\<close> Some sd Inl show ?thesis by simp
    qed
  qed
qed

theorem start_profiling_when_single_witness:
  "count_list (new_events (test_server {} None [])
     (snd (connected test_env 1 (test_server {} None [])))) Start_profiling_ev = 1 \<and>
   count_list (new_events (test_server {1} None [])
     (snd (connected test_env 2 (test_server {1} None [])))) Start_profiling_ev = 0"
proof -
  let ?w = "test_server {} None []"
  let ?v = "test_server {1} None []"
  let ?w2 = "snd (log_connected test_env 1 (?w\<lparr>clients := insert 1 (clients ?w)\<rparr>))"
  let ?v2 = "snd (log_connected test_env 2 (?v\<lparr>clients := insert 2 (clients ?v)\<rparr>))"
  have lg: "log_connected test_env 1 (?w\<lparr>clients := insert 1 (clients ?w)\<rparr>) = (Inr (), ?w2)"
    by (simp add: test_defs run_defs)
  have wt: "srv_start_watching test_env 1 ?w2 = (Inr (), snd (srv_start_watching test_env 1 ?w2))"
    by (simp add: test_defs run_defs)
  have res: "connected test_env 1 ?w = (fst (connected test_env 1 ?w), snd (connected test_env 1 ?w))"
    by simp
  have lg': "log_connected test_env 2 (?v\<lparr>clients := insert 2 (clients ?v)\<rparr>) = (Inr (), ?v2)"
    by (simp add: test_defs run_defs)
  have wt': "srv_start_watching test_env 2 ?v2 = (Inr (), snd (srv_start_watching test_env 2 ?v2))"
    by (simp add: test_defs run_defs)
  have res': "connected test_env 2 ?v = (fst (connected test_env 2 ?v), snd (connected test_env 2 ?v))"
    by simp
  have c: "clients ?w = {}" "latest_data ?w = None" "clients ?v = {1}" "latest_data ?v = None"
    by (simp_all add: test_defs)
  from start_profiling_when_single [OF lg wt res] start_profiling_when_single [OF lg' wt' res'] c
  show ?thesis by simp
qed

text \<open>
  C8. \<^verbatim>\<open>disconnected(c)\<close> for a client that is not in the set returns at once and changes
  nothing: not the set, not the log, not the backend (no close call). After any
  \<^verbatim>\<open>disconnected(c)\<close>, whether it returned or raised, a second \<^verbatim>\<open>disconnected(c)\<close> is such a
  call: it returns normally and leaves the state as the first call left it.
\<close>

theorem disconnected_idempotent:
  "(c \<notin> clients w \<longrightarrow> disconnected env c w = (Inr (), w)) \<and>
   disconnected env c (snd (disconnected env c w)) = (Inr (), snd (disconnected env c w))"
proof -
  have "c \<notin> clients (snd (disconnected env c w))"
    using disconnected_effect [of env c w "fst (disconnected env c w)" "snd (disconnected env c w)"]
    by simp
  then show ?thesis by (simp add: disconnected_absent)
qed

theorem disconnected_idempotent_witness:
  "disconnected test_env 3 (test_server {1, 2} None []) = (Inr (), test_server {1, 2} None []) \<and>
   disconnected test_env 1 (snd (disconnected test_env 1 (test_server {1, 2} None [])))
     = (Inr (), snd (disconnected test_env 1 (test_server {1, 2} None []))) \<and>
   clients (snd (disconnected test_env 1 (test_server {1, 2} None []))) = {2}"
proof -
  have "3 \<notin> clients (test_server {1, 2} None [])" by (simp add: test_defs)
  moreover have "clients (snd (disconnected test_env 1 (test_server {1, 2} None []))) = {2}"
    by (simp add: test_defs run_defs)
  ultimately show ?thesis
    using disconnected_idempotent [of 3 "test_server {1, 2} None []" test_env]
          disconnected_idempotent [of 1 "test_server {1, 2} None []" test_env]
    by simp
qed

text \<open>
  C10. Let the set hold no client other than \<open>client\<close>, let there be a latest frame, and let
  the catch-up send of \<^verbatim>\<open>connected(client)\<close> raise a \<^verbatim>\<open>socket.error\<close> with errno \<^verbatim>\<open>EPIPE\<close> or
  \<^verbatim>\<open>EBADF\<close>. If \<^verbatim>\<open>connected\<close> returns, the set is empty afterwards, the backend was asked to
  close the client, and \<^verbatim>\<open>_start_profiling\<close> was not called.
\<close>

theorem catch_up_failure_of_only_client:
  assumes lg: "log_connected env client (w\<lparr>clients := insert client (clients w)\<rparr>) = (Inr (), w2)"
    and wt: "srv_start_watching env client w2 = (Inr (), w3)"
    and latest: "latest_data w = Some data"
    and sd: "srv_send env client data w3 = (Inl (Socket_error err), w4)"
    and err: "err = EPIPE \<or> err = EBADF"
    and only: "clients w \<subseteq> {client}"
    and res: "connected env client w = (Inr (), w')"
  shows "clients w' = {} \<and> Close_ev client \<in> set (new_events w w') \<and>
         Start_profiling_ev \<notin> set (new_events w w')"
proof -
  from watching_state [OF lg wt] obtain evs where st:
    "clients w3 = insert client (clients w)" "trace w3 = trace w @ evs"
    "Start_profiling_ev \<notin> set evs"
    by blast
  note se = srv_send_effect [OF sd]
  have cl4: "clients w4 = insert client (clients w)" using se st by simp
  have "connected env client w = disconnected env client w4"
    using connected_after_watching [OF lg wt] latest sd err by auto
  with res have "disconnected env client w4 = (Inr (), w')" by simp
  from disconnected_effect [OF this] cl4 obtain evs' where d:
    "clients w' = insert client (clients w) - {client}" "trace w' = trace w4 @ evs'"
    "Close_ev client \<in> set evs'" "Start_profiling_ev \<notin> set evs'"
    by auto
  have "new_events w w' = evs @ [Send_ev client data (Inl (Socket_error err))] @ evs'"
    using d(2) se st(2) by (intro new_events_append) simp
  with d st(3) only show ?thesis by auto
qed

theorem catch_up_failure_of_only_client_witness:
  "clients (snd (connected test_env 2 (test_server {} (Some [0, 0, 0, 1, 9]) [(2, EPIPE)]))) = {} \<and>
   Close_ev 2 \<in> set (new_events (test_server {} (Some [0, 0, 0, 1, 9]) [(2, EPIPE)])
     (snd (connected test_env 2 (test_server {} (Some [0, 0, 0, 1, 9]) [(2, EPIPE)])))) \<and>
   Start_profiling_ev \<notin> set (new_events (test_server {} (Some [0, 0, 0, 1, 9]) [(2, EPIPE)])
     (snd (connected test_env 2 (test_server {} (Some [0, 0, 0, 1, 9]) [(2, EPIPE)]))))"
proof -
  let ?w = "test_server {} (Some [0, 0, 0, 1, 9]) [(2, EPIPE)]"
  let ?w2 = "snd (log_connected test_env 2 (?w\<lparr>clients := insert 2 (clients ?w)\<rparr>))"
  let ?w3 = "snd (srv_start_watching test_env 2 ?w2)"
  have lg: "log_connected test_env 2 (?w\<lparr>clients := insert 2 (clients ?w)\<rparr>) = (Inr (), ?w2)"
    by (simp add: test_defs run_defs)
  have wt: "srv_start_watching test_env 2 ?w2 = (Inr (), ?w3)"
    by (simp add: test_defs run_defs)
  have latest: "latest_data ?w = Some [0, 0, 0, 1, 9]"
    by (simp add: test_defs)
  have sd: "srv_send test_env 2 [0, 0, 0, 1, 9] ?w3
              = (Inl (Socket_error EPIPE), snd (srv_send test_env 2 [0, 0, 0, 1, 9] ?w3))"
    by (simp add: test_defs run_defs)
  have only: "clients ?w \<subseteq> {2}"
    by (simp add: test_defs)
  have res: "connected test_env 2 ?w = (Inr (), snd (connected test_env 2 ?w))"
    by (simp add: test_defs run_defs)
  from catch_up_failure_of_only_client [OF lg wt latest sd _ only res] show ?thesis by simp
qed

subsection \<open>One round of the loop\<close>











text \<open>A \<^verbatim>\<open>socket.error\<close> of a send never leaves the broadcast.\<close>

lemma broadcast_swallows_socket_errors:
  "broadcast env data cs closed w = (Inl e, w') \<Longrightarrow> e \<noteq> Socket_error err"
proof (induction cs arbitrary: closed w)
  case Nil
  then show ?case by simp
next
  case (Cons c cs)
  obtain rs w1 where sd: "srv_send env c data w = (rs, w1)" by (cases "srv_send env c data w")
  show ?case
  proof (cases rs)
    case (Inr u)
    with sd Cons.prems Cons.IH show ?thesis by simp
  next
    case (Inl e')
    with sd Cons.prems Cons.IH show ?thesis by (cases e') (auto split: if_splits)
  qed
qed






text \<open>
  C2. The first half holds: a send that raises a \<^verbatim>\<open>socket.error\<close> with errno \<^verbatim>\<open>EPIPE\<close>
  records the client and the pass goes on without raising. The second half fails on the
  code: the handler of the broadcast ends in \<^verbatim>\<open>pass\<close> where the handler of \<^verbatim>\<open>connected\<close>
  ends in \<^verbatim>\<open>raise\<close>, so a \<^verbatim>\<open>socket.error\<close> with any other errno is ignored and never leaves
  the round loop. With clients 1, 2 and 3, a send to 2 that raises \<^verbatim>\<open>EPIPE\<close> and a send to 3
  that raises \<^verbatim>\<open>ECONNRESET\<close>: all three are sent to, the round reaches its next \<^verbatim>\<open>yield\<close>
  without raising, client 2 is removed and client 3 stays in the set.
\<close>

theorem broadcast_ignores_connection_reset:
  "fst (profiling_next test_env Gen_suspended
          (test_server {1, 2, 3} None [(2, EPIPE), (3, ECONNRESET)])) = Inr Yielded \<and>
   send_targets (trace (snd (profiling_next test_env Gen_suspended
          (test_server {1, 2, 3} None [(2, EPIPE), (3, ECONNRESET)])))) = [1, 2, 3] \<and>
   Send_ev 3 [0, 0, 0, 2, 2, 7] (Inl (Socket_error ECONNRESET))
     \<in> set (trace (snd (profiling_next test_env Gen_suspended
          (test_server {1, 2, 3} None [(2, EPIPE), (3, ECONNRESET)])))) \<and>
   clients (snd (profiling_next test_env Gen_suspended
          (test_server {1, 2, 3} None [(2, EPIPE), (3, ECONNRESET)]))) = {1, 3}"
  by (simp add: test_defs run_defs)



subsection \<open>The latest frame\<close>






end
